theory Spec2Isabelle
  imports Complex_Main
begin

section \<open>The Marketplace client of the VS Code Marketplace Downloader\<close>

text \<open>
  A shallow embedding of \<^verbatim>\<open>src/utils/marketplaceApi.ts\<close> and of the types it imports
  from \<^verbatim>\<open>src/utils/types.ts\<close>.

  \<^item> JavaScript strings are lists of code units (\<open>string\<close>); the only string operations
    of the client are equality, concatenation and \<^verbatim>\<open>split('.')\<close>.
  \<^item> \<^verbatim>\<open>null\<close> and \<^verbatim>\<open>undefined\<close> are \<open>None\<close>.
  \<^item> A thrown exception or a rejected promise is \<open>Inl e\<close>; a \<^verbatim>\<open>try\<close> body that can
    throw is a function into \<open>js_error + 'a\<close>, and the \<^verbatim>\<open>catch\<close> handler is the
    case distinction on its result.
  \<^item> The platform (the \<^verbatim>\<open>URL\<close> constructor, \<^verbatim>\<open>fetch\<close>) is a parameter of the
    operations; the requests an operation issues are returned with its result.
\<close>

subsection \<open>Types of \<^verbatim>\<open>types.ts\<close>\<close>

record Publisher =
  publisherId :: string
  publisherName :: string
  displayName :: string

record ExtensionFile =
  assetType :: string
  source :: string

record ExtensionProperty =
  key :: string
  "value" :: string

text \<open>The statistic value is a JavaScript number; the client never inspects it.\<close>

record ExtensionStatistic =
  statisticName :: string
  "value" :: real

record ExtensionVersion =
  version :: string
  lastUpdated :: string
  files :: "ExtensionFile list"
  properties :: "ExtensionProperty list option"

text \<open>
  \<open>versions\<close> is declared \<^verbatim>\<open>ExtensionVersion[]\<close>, but \<^verbatim>\<open>getExtensionDownloadUrl\<close> guards
  against its absence (\<^verbatim>\<open>!extension.versions\<close>), so the field is optional here.
\<close>

record VSCodeExtension =
  extensionId :: string
  extensionName :: string
  displayName :: string
  publisher :: Publisher
  versions :: "ExtensionVersion list option"
  shortDescription :: string
  description :: string
  categories :: "string list"
  tags :: "string list"
  statistics :: "ExtensionStatistic list"
  flags :: int
  lastUpdated :: string
  publishedDate :: string
  releaseDate :: string

record DownloadUrlInfo =
  downloadUrl :: string
  version :: string
  fileName :: string

definition EXTENSION_ASSET_TYPES_VSIX :: string where
  "EXTENSION_ASSET_TYPES_VSIX = ''Microsoft.VisualStudio.Services.VSIXPackage''"

subsection \<open>The platform: faults, URLs, HTTP\<close>

datatype js_error = TypeError | SyntaxError | NetworkError

text \<open>
  The fields of a parsed \<^verbatim>\<open>URL\<close> object that the client reads. \<open>searchParams\<close> is the
  decoded list of name/value pairs in the order of the query string.
\<close>

record URL =
  hostname :: string
  pathname :: string
  searchParams :: "(string \<times> string) list"

text \<open>\<^verbatim>\<open>new URL(url)\<close>: throws on a string that does not parse.\<close>

type_synonym URL_constructor = "string \<Rightarrow> js_error + URL"

text \<open>\<^verbatim>\<open>URLSearchParams.get(name)\<close>: the first value of that name, or \<^verbatim>\<open>null\<close>.\<close>

fun searchParams_get :: "(string \<times> string) list \<Rightarrow> string \<Rightarrow> string option" where
  "searchParams_get [] name = None"
| "searchParams_get ((k, v) # ps) name = (if k = name then Some v else searchParams_get ps name)"

text \<open>A JSON value, for the body that \<^verbatim>\<open>JSON.stringify\<close> serialises.\<close>

datatype json =
    JNumber int
  | JString string
  | JArray "json list"
  | JObject "(string \<times> json) list"

datatype http_method = GET | POST

record http_request =
  url :: string
  "method" :: http_method
  headers :: "(string \<times> string) list"
  body :: "json option"

text \<open>
  The decoded body of the gallery query's response, as far as the client looks into it:
  \<^verbatim>\<open>data.results?.[0]?.extensions\<close>. A missing or \<^verbatim>\<open>null\<close> member is \<open>None\<close>.
\<close>

record result_group =
  extensions :: "VSCodeExtension list option"

record query_data =
  results :: "result_group option list option"

type_synonym Blob = string

text \<open>
  A \<^verbatim>\<open>Response\<close>: \<open>json\<close> is the outcome of \<^verbatim>\<open>response.json()\<close> (rejected, \<^verbatim>\<open>null\<close>, or
  data), \<open>blob\<close> the outcome of \<^verbatim>\<open>response.blob()\<close>.
\<close>

record http_response =
  ok :: bool
  statusText :: string
  json :: "js_error + query_data option"
  blob :: "js_error + Blob"

text \<open>\<^verbatim>\<open>fetch\<close>: rejects on a network error, resolves to a response otherwise.\<close>

type_synonym transport = "http_request \<Rightarrow> js_error + http_response"

subsection \<open>JavaScript helpers\<close>

text \<open>\<^verbatim>\<open>s.split(sep)\<close> for a one-character separator: splits at every occurrence.\<close>

fun split :: "char \<Rightarrow> string \<Rightarrow> string list" where
  "split sep [] = [[]]"
| "split sep (c # cs) =
     (if c = sep then [] # split sep cs
      else (case split sep cs of [] \<Rightarrow> [[c]] | w # ws \<Rightarrow> (c # w) # ws))"

text \<open>Array destructuring and indexing: an element out of range is \<^verbatim>\<open>undefined\<close>.\<close>

fun element :: "'a list \<Rightarrow> nat \<Rightarrow> 'a option" where
  "element [] i = None"
| "element (x # xs) 0 = Some x"
| "element (x # xs) (Suc i) = element xs i"

text \<open>\<^verbatim>\<open>!s\<close> for \<^verbatim>\<open>s: string | undefined\<close>: true of \<^verbatim>\<open>undefined\<close> and of the empty string.\<close>

fun falsy :: "string option \<Rightarrow> bool" where
  "falsy None = True"
| "falsy (Some s) = (s = [])"

subsection \<open>\<^verbatim>\<open>marketplaceApi.ts\<close>\<close>

definition MARKETPLACE_API_BASE :: string where
  "MARKETPLACE_API_BASE =
     ''https://marketplace.visualstudio.com/_apis/public/gallery/extensionquery''"

text \<open>
  The body of the \<^verbatim>\<open>try\<close> block of \<^verbatim>\<open>fetchExtensionInfo\<close> (lines 17 to 59), with the
  requests issued.
\<close>

definition fetchExtensionInfo_try ::
  "transport \<Rightarrow> string \<Rightarrow> (js_error + VSCodeExtension option) \<times> http_request list" where
  "fetchExtensionInfo_try fetch ext_id =
     (let parts = split CHR ''.'' ext_id;
          publisher_part = element parts 0;
          name_part = element parts 1
      in if falsy publisher_part \<or> falsy name_part then (Inr None, [])
         else
           let request = \<lparr>url = MARKETPLACE_API_BASE, method = POST,
                 headers = [(''Content-Type'', ''application/json''),
                            (''Accept'', ''application/json;api-version=6.0-preview.1'')],
                 body = Some (JObject
                   [(''filters'', JArray [JObject
                       [(''criteria'', JArray [JObject
                           [(''filterType'', JNumber 7), (''value'', JString ext_id)]]),
                        (''pageNumber'', JNumber 1),
                        (''pageSize'', JNumber 1),
                        (''sortBy'', JNumber 0),
                        (''sortOrder'', JNumber 0)]]),
                    (''assetTypes'', JArray []),
                    (''flags'', JNumber 914)])\<rparr>
           in case fetch request of
                Inl e \<Rightarrow> (Inl e, [request])
              | Inr response \<Rightarrow>
                  if \<not> ok response then (Inr None, [request])
                  else
                    (case json response of
                       Inl e \<Rightarrow> (Inl e, [request])
                     | Inr None \<Rightarrow> (Inl TypeError, [request])
                     | Inr (Some data) \<Rightarrow>
                         let exts =
                               (case results data of
                                  None \<Rightarrow> None
                                | Some groups \<Rightarrow>
                                    (case element groups 0 of
                                       None \<Rightarrow> None
                                     | Some None \<Rightarrow> None
                                     | Some (Some grp) \<Rightarrow> extensions grp))
                         in (case exts of
                               None \<Rightarrow> (Inr None, [request])
                             | Some [] \<Rightarrow> (Inr None, [request])
                             | Some (first # rest) \<Rightarrow> (Inr (Some first), [request]))))"

text \<open>\<^verbatim>\<open>fetchExtensionInfo\<close>: the \<^verbatim>\<open>catch\<close> handler turns every fault into \<^verbatim>\<open>null\<close>.\<close>

definition fetchExtensionInfo ::
  "transport \<Rightarrow> string \<Rightarrow> VSCodeExtension option \<times> http_request list" where
  "fetchExtensionInfo fetch ext_id =
     (case fetchExtensionInfo_try fetch ext_id of
        (Inl error, issued) \<Rightarrow> (None, issued)
      | (Inr result, issued) \<Rightarrow> (result, issued))"

text \<open>
  \<^verbatim>\<open>extractExtensionIdFromUrl\<close>: the \<^verbatim>\<open>try\<close> body, then the function with its handler.
\<close>

definition extractExtensionIdFromUrl_try ::
  "URL_constructor \<Rightarrow> string \<Rightarrow> js_error + string option" where
  "extractExtensionIdFromUrl_try new_URL url_string =
     (case new_URL url_string of
        Inl e \<Rightarrow> Inl e
      | Inr urlObj \<Rightarrow>
          if hostname urlObj = ''marketplace.visualstudio.com''
          then (let itemName = searchParams_get (searchParams urlObj) ''itemName''
                in if \<not> falsy itemName then Inr itemName else Inr None)
          else Inr None)"

definition extractExtensionIdFromUrl :: "URL_constructor \<Rightarrow> string \<Rightarrow> string option" where
  "extractExtensionIdFromUrl new_URL url_string =
     (case extractExtensionIdFromUrl_try new_URL url_string of
        Inl error \<Rightarrow> None
      | Inr result \<Rightarrow> result)"

text \<open>
  \<^verbatim>\<open>getExtensionDownloadUrl\<close>. The constants \<open>targetVersion\<close> (lines 108 to 110) and
  \<open>vsixFile\<close> (lines 118 to 120) of the source are functions of what they are computed from.
  \<^verbatim>\<open>version ? \<dots> : \<dots>\<close> tests the optional argument for truthiness.
\<close>

definition targetVersion :: "ExtensionVersion list \<Rightarrow> string option \<Rightarrow> ExtensionVersion option" where
  "targetVersion vs requested =
     (if \<not> falsy requested
      then List.find (\<lambda>v. Some (ExtensionVersion.version v) = requested) vs
      else element vs 0)"

definition vsixFile :: "ExtensionVersion \<Rightarrow> ExtensionFile option" where
  "vsixFile target = List.find (\<lambda>file. assetType file = EXTENSION_ASSET_TYPES_VSIX) (files target)"

text \<open>
  On records of the declared types nothing in the \<^verbatim>\<open>try\<close> body throws
  (\<^verbatim>\<open>fetchExtensionInfo\<close> handles its own faults), so the handler of lines 132 to 135 has no
  branch here.
\<close>

definition getExtensionDownloadUrl ::
  "transport \<Rightarrow> string \<Rightarrow> string option \<Rightarrow> DownloadUrlInfo option \<times> http_request list" where
  "getExtensionDownloadUrl fetch ext_id requested =
     (case fetchExtensionInfo fetch ext_id of
        (None, issued) \<Rightarrow> (None, issued)
      | (Some extension, issued) \<Rightarrow>
          (case versions extension of
             None \<Rightarrow> (None, issued)
           | Some [] \<Rightarrow> (None, issued)
           | Some (v # vs) \<Rightarrow>
               (case targetVersion (v # vs) requested of
                  None \<Rightarrow> (None, issued)
                | Some target \<Rightarrow>
                    (case vsixFile target of
                       None \<Rightarrow> (None, issued)
                     | Some vsix \<Rightarrow>
                         (Some \<lparr>downloadUrl = source vsix,
                                 version = ExtensionVersion.version target,
                                 fileName = publisherName (publisher extension) @ ''.''
                                   @ extensionName extension @ ''-''
                                   @ ExtensionVersion.version target @ ''.vsix''\<rparr>, issued)))))"

text \<open>The object returned at lines 127 to 131, as a function of what it is built from.\<close>

definition descriptor ::
  "VSCodeExtension \<Rightarrow> ExtensionVersion \<Rightarrow> ExtensionFile \<Rightarrow> DownloadUrlInfo" where
  "descriptor extension target vsix =
     \<lparr>downloadUrl = source vsix,
      version = ExtensionVersion.version target,
      fileName = publisherName (publisher extension) @ ''.''
        @ extensionName extension @ ''-''
        @ ExtensionVersion.version target @ ''.vsix''\<rparr>"

text \<open>\<^verbatim>\<open>downloadExtensionFile\<close>: the \<^verbatim>\<open>try\<close> body, then the function with its handler.\<close>

definition downloadExtensionFile_try ::
  "transport \<Rightarrow> string \<Rightarrow> string \<Rightarrow> (js_error + Blob option) \<times> http_request list" where
  "downloadExtensionFile_try fetch download_url filename =
     (let request = \<lparr>url = download_url, method = GET, headers = [], body = None\<rparr>
      in case fetch request of
           Inl e \<Rightarrow> (Inl e, [request])
         | Inr response \<Rightarrow>
             if \<not> ok response then (Inr None, [request])
             else (case blob response of
                     Inl e \<Rightarrow> (Inl e, [request])
                   | Inr b \<Rightarrow> (Inr (Some b), [request])))"

definition downloadExtensionFile ::
  "transport \<Rightarrow> string \<Rightarrow> string \<Rightarrow> Blob option \<times> http_request list" where
  "downloadExtensionFile fetch download_url filename =
     (case downloadExtensionFile_try fetch download_url filename of
        (Inl error, issued) \<Rightarrow> (None, issued)
      | (Inr result, issued) \<Rightarrow> (result, issued))"

text \<open>
  \<^verbatim>\<open>isMarketplaceExtensionPage\<close>: the handler answers a throwing constructor with
  \<^verbatim>\<open>false\<close>.
\<close>

definition isMarketplaceExtensionPage :: "URL_constructor \<Rightarrow> string \<Rightarrow> bool" where
  "isMarketplaceExtensionPage new_URL url_string =
     (case new_URL url_string of
        Inl error \<Rightarrow> False
      | Inr urlObj \<Rightarrow>
          hostname urlObj = ''marketplace.visualstudio.com'' \<and> pathname urlObj = ''/items'')"

subsection \<open>The precondition of \<^verbatim>\<open>fetchExtensionInfo\<close> in the words of the specification\<close>

text \<open>
  The specification describes the check on the identifier as a split on the first \<open>.\<close>
  into a publisher half and a name half, both of which must be non-empty.
\<close>

definition split_first :: "char \<Rightarrow> string \<Rightarrow> (string \<times> string) option" where
  "split_first sep s =
     (if sep \<in> set s
      then Some (takeWhile (\<lambda>c. c \<noteq> sep) s, tl (dropWhile (\<lambda>c. c \<noteq> sep) s))
      else None)"

definition two_nonempty_halves :: "string \<Rightarrow> bool" where
  "two_nonempty_halves s =
     (case split_first CHR ''.'' s of
        None \<Rightarrow> False
      | Some (publisher_half, name_half) \<Rightarrow> publisher_half \<noteq> [] \<and> name_half \<noteq> [])"

subsection \<open>Failed transport outcomes\<close>

text \<open>
  The outcomes of the gallery query that the specification lists as failures: a thrown
  network error, a non-success status, a body that is not the expected
  \<^verbatim>\<open>results[0].extensions\<close> nesting (or not JSON at all), an empty \<^verbatim>\<open>extensions\<close> array.
\<close>

fun failed_query :: "js_error + http_response \<Rightarrow> bool" where
  "failed_query (Inl e) = True"
| "failed_query (Inr response) =
     (\<not> ok response \<or>
      (case json response of
         Inl e \<Rightarrow> True
       | Inr None \<Rightarrow> True
       | Inr (Some data) \<Rightarrow>
           (case results data of
              None \<Rightarrow> True
            | Some [] \<Rightarrow> True
            | Some (None # gs) \<Rightarrow> True
            | Some (Some grp # gs) \<Rightarrow>
                (case extensions grp of
                   None \<Rightarrow> True
                 | Some [] \<Rightarrow> True
                 | Some (x # xs) \<Rightarrow> False))))"

text \<open>
  The failed outcomes of the plain GET of \<^verbatim>\<open>downloadExtensionFile\<close>: a thrown network
  error, a non-success status, a body that cannot be read.
\<close>

fun failed_download :: "js_error + http_response \<Rightarrow> bool" where
  "failed_download (Inl e) = True"
| "failed_download (Inr response) =
     (\<not> ok response \<or> (case blob response of Inl e \<Rightarrow> True | Inr b \<Rightarrow> False))"

subsection \<open>Example platform: a record, transports, URLs\<close>

definition example_version :: "string \<Rightarrow> ExtensionFile list \<Rightarrow> ExtensionVersion" where
  "example_version v fs =
     \<lparr>ExtensionVersion.version = v, ExtensionVersion.lastUpdated = ''2024-01-01T00:00:00Z'',
      files = fs, properties = None\<rparr>"

definition example_versions :: "ExtensionVersion list" where
  "example_versions =
     [example_version ''2.0.0''
        [\<lparr>assetType = ''Microsoft.VisualStudio.Code.Manifest'',
          source = ''https://cdn.example/2.0.0/manifest''\<rparr>,
         \<lparr>assetType = ''Microsoft.VisualStudio.Services.VSIXPackage'',
          source = ''https://cdn.example/2.0.0/vsix''\<rparr>,
         \<lparr>assetType = ''Microsoft.VisualStudio.Services.VSIXPackage'',
          source = ''https://cdn.example/2.0.0/vsix-alt''\<rparr>],
      example_version ''1.2.3''
        [\<lparr>assetType = ''Microsoft.VisualStudio.Services.VSIXPackage'',
          source = ''https://cdn.example/1.2.3/vsix''\<rparr>],
      example_version ''1.0.0''
        [\<lparr>assetType = ''Microsoft.VisualStudio.Services.VSIXPackage'',
          source = ''https://cdn.example/1.0.0/vsix''\<rparr>],
      example_version ''0.9.0''
        [\<lparr>assetType = ''Microsoft.VisualStudio.Code.Manifest'',
          source = ''https://cdn.example/0.9.0/manifest''\<rparr>]]"

text \<open>
  The extension \<open>acme.tool\<close>: version \<open>2.0.0\<close> carries two package assets, version
  \<open>0.9.0\<close> none.
\<close>

definition example_extension :: VSCodeExtension where
  "example_extension =
     \<lparr>extensionId = ''0000'', extensionName = ''tool'', displayName = ''Tool'',
      publisher = \<lparr>publisherId = ''1111'', publisherName = ''acme'',
                   Publisher.displayName = ''Acme''\<rparr>,
      versions = Some example_versions,
      shortDescription = [], description = [], categories = [], tags = [],
      statistics = [], flags = 0, lastUpdated = [], publishedDate = [],
      releaseDate = []\<rparr>"

text \<open>A marketplace that answers every query with that record, and every GET with bytes.\<close>

definition example_fetch :: transport where
  "example_fetch request =
     (if method request = POST
      then Inr \<lparr>ok = True, statusText = ''OK'',
                json = Inr (Some \<lparr>results = Some [Some \<lparr>extensions = Some [example_extension]\<rparr>]\<rparr>),
                blob = Inl TypeError\<rparr>
      else Inr \<lparr>ok = True, statusText = ''OK'', json = Inl SyntaxError, blob = Inr ''PK''\<rparr>)"

text \<open>The request of \<^verbatim>\<open>fetchExtensionInfo('acme.tool')\<close>.\<close>

definition example_request :: http_request where
  "example_request =
     \<lparr>url =
         ''https://marketplace.visualstudio.com/_apis/public/gallery/extensionquery'', method = POST,
      headers = [(''Content-Type'', ''application/json''),
                 (''Accept'', ''application/json;api-version=6.0-preview.1'')],
      body = Some (JObject
        [(''filters'', JArray [JObject
            [(''criteria'', JArray [JObject
                [(''filterType'', JNumber 7), (''value'', JString ''acme.tool'')]]),
             (''pageNumber'', JNumber 1),
             (''pageSize'', JNumber 1),
             (''sortBy'', JNumber 0),
             (''sortOrder'', JNumber 0)]]),
         (''assetTypes'', JArray []),
         (''flags'', JNumber 914)])\<rparr>"

text \<open>Four failing transports, one for each kind of failure.\<close>

definition offline_fetch :: transport where
  "offline_fetch request = Inl NetworkError"

definition unavailable_fetch :: transport where
  "unavailable_fetch request =
     Inr \<lparr>ok = False, statusText = ''Service Unavailable'', json = Inl SyntaxError,
          blob = Inr []\<rparr>"

definition shapeless_fetch :: transport where
  "shapeless_fetch request =
     Inr \<lparr>ok = True, statusText = ''OK'', json = Inr (Some \<lparr>results = None\<rparr>),
          blob = Inl TypeError\<rparr>"

definition empty_fetch :: transport where
  "empty_fetch request =
     Inr \<lparr>ok = True, statusText = ''OK'',
          json = Inr (Some \<lparr>results = Some [Some \<lparr>extensions = Some []\<rparr>]\<rparr>),
          blob = Inl TypeError\<rparr>"

text \<open>
  The results of \<^verbatim>\<open>new URL\<close> on the URL strings of the examples; every other string
  stands for one that does not parse.
\<close>

definition example_URL :: URL_constructor where
  "example_URL s =
     (if s = ''https://marketplace.visualstudio.com/items?itemName=publisher.extensionName''
      then Inr \<lparr>hostname = ''marketplace.visualstudio.com'', pathname = ''/items'',
                searchParams = [(''itemName'', ''publisher.extensionName'')]\<rparr>
      else if s = ''https://marketplace.visualstudio.com/items?itemName=''
      then Inr \<lparr>hostname = ''marketplace.visualstudio.com'', pathname = ''/items'',
                searchParams = [(''itemName'', [])]\<rparr>
      else if s = ''https://marketplace.visualstudio.com/items?itemName=nodot''
      then Inr \<lparr>hostname = ''marketplace.visualstudio.com'', pathname = ''/items'',
                searchParams = [(''itemName'', ''nodot'')]\<rparr>
      else if s = ''https://marketplace.visualstudio.com/items''
      then Inr \<lparr>hostname = ''marketplace.visualstudio.com'', pathname = ''/items'',
                searchParams = []\<rparr>
      else if s = ''https://marketplace.visualstudio.com/''
      then Inr \<lparr>hostname = ''marketplace.visualstudio.com'', pathname = ''/'',
                searchParams = []\<rparr>
      else if s = ''https://www.google.com/items?itemName=publisher.extensionName''
      then Inr \<lparr>hostname = ''www.google.com'', pathname = ''/items'',
                searchParams = [(''itemName'', ''publisher.extensionName'')]\<rparr>
      else Inl TypeError)"

section \<open>Auxiliary facts\<close>

subsection \<open>Splitting and searching\<close>

lemma element_split_0: "element (split sep s) 0 = Some (takeWhile (\<lambda>c. c \<noteq> sep) s)"
  by (induction s) (auto split: list.splits)

lemma element_split_1:
  "element (split sep s) (Suc 0) =
     (if sep \<in> set s
      then Some (takeWhile (\<lambda>c. c \<noteq> sep) (tl (dropWhile (\<lambda>c. c \<noteq> sep) s)))
      else None)"
  by (induction s) (auto split: list.splits simp: element_split_0)

lemma element_member: "element xs i = Some x \<Longrightarrow> x \<in> set xs"
  by (induction xs i rule: element.induct) auto

lemma searchParams_get_first:
  "name \<notin> fst ` set pre \<Longrightarrow> searchParams_get (pre @ (name, v) # post) name = Some v"
  by (induction pre) auto

lemma searchParams_get_missing:
  "name \<notin> fst ` set ps \<Longrightarrow> searchParams_get ps name = None"
  by (induction ps) auto

lemma find_first:
  "\<forall>x \<in> set pre. \<not> P x \<Longrightarrow> P y \<Longrightarrow> List.find P (pre @ y # post) = Some y"
  by (induction pre) simp_all

lemma find_absent: "\<forall>x \<in> set xs. \<not> P x \<Longrightarrow> List.find P xs = None"
  by (induction xs) simp_all

lemma find_present: "List.find P xs = Some y \<Longrightarrow> y \<in> set xs \<and> P y"
  by (induction xs) (auto split: if_splits)

lemma find_exists: "\<exists>x \<in> set xs. P x \<Longrightarrow> \<exists>y. List.find P xs = Some y"
  by (induction xs) auto

subsection \<open>\<^verbatim>\<open>fetchExtensionInfo\<close> and \<^verbatim>\<open>downloadExtensionFile\<close>\<close>

lemma fetchExtensionInfo_issued:
  "snd (fetchExtensionInfo fetch ext_id) =
     (if falsy (element (split CHR ''.'' ext_id) 0) \<or> falsy (element (split CHR ''.'' ext_id) 1)
      then []
      else [\<lparr>url = MARKETPLACE_API_BASE, method = POST,
             headers = [(''Content-Type'', ''application/json''),
                        (''Accept'', ''application/json;api-version=6.0-preview.1'')],
             body = Some (JObject
               [(''filters'', JArray [JObject
                   [(''criteria'', JArray [JObject
                       [(''filterType'', JNumber 7), (''value'', JString ext_id)]]),
                    (''pageNumber'', JNumber 1),
                    (''pageSize'', JNumber 1),
                    (''sortBy'', JNumber 0),
                    (''sortOrder'', JNumber 0)]]),
                (''assetTypes'', JArray []),
                (''flags'', JNumber 914)])\<rparr>])"
  unfolding fetchExtensionInfo_def fetchExtensionInfo_try_def Let_def
  by (simp split: sum.splits option.splits list.splits)

lemma fetchExtensionInfo_rejected:
  "falsy (element (split CHR ''.'' ext_id) 0) \<or> falsy (element (split CHR ''.'' ext_id) 1)
   \<Longrightarrow> fetchExtensionInfo fetch ext_id = (None, [])"
  unfolding fetchExtensionInfo_def fetchExtensionInfo_try_def Let_def
  by simp

lemma fetchExtensionInfo_absent_iff:
  "fst (fetchExtensionInfo fetch ext_id) = None \<longleftrightarrow>
     (\<forall>request \<in> set (snd (fetchExtensionInfo fetch ext_id)). failed_query (fetch request))"
  unfolding fetchExtensionInfo_def fetchExtensionInfo_try_def Let_def
  by (simp split: sum.split option.split list.split)

lemma downloadExtensionFile_absent_iff:
  "fst (downloadExtensionFile fetch download_url filename) = None \<longleftrightarrow>
     (\<forall>request \<in> set (snd (downloadExtensionFile fetch download_url filename)).
        failed_download (fetch request))"
  unfolding downloadExtensionFile_def downloadExtensionFile_try_def Let_def
  by (simp split: sum.split option.split list.split)

lemma fetchExtensionInfo_catch:
  "fst (fetchExtensionInfo_try fetch ext_id) = Inl e
   \<Longrightarrow> fst (fetchExtensionInfo fetch ext_id) = None"
  unfolding fetchExtensionInfo_def by (cases "fetchExtensionInfo_try fetch ext_id") simp

lemma downloadExtensionFile_catch:
  "fst (downloadExtensionFile_try fetch download_url filename) = Inl e
   \<Longrightarrow> fst (downloadExtensionFile fetch download_url filename) = None"
  unfolding downloadExtensionFile_def
  by (cases "downloadExtensionFile_try fetch download_url filename") simp

subsection \<open>\<^verbatim>\<open>getExtensionDownloadUrl\<close>\<close>

lemma vsixFile_absent:
  "\<forall>f \<in> set (files target). assetType f \<noteq> EXTENSION_ASSET_TYPES_VSIX
   \<Longrightarrow> vsixFile target = None"
  unfolding vsixFile_def by (rule find_absent)

lemma vsixFile_first:
  "files target = pre @ f # post
   \<Longrightarrow> \<forall>g \<in> set pre. assetType g \<noteq> EXTENSION_ASSET_TYPES_VSIX
   \<Longrightarrow> assetType f = EXTENSION_ASSET_TYPES_VSIX
   \<Longrightarrow> vsixFile target = Some f"
  unfolding vsixFile_def by (simp add: find_first)

lemma vsixFile_present:
  "vsixFile target = Some f
   \<Longrightarrow> f \<in> set (files target) \<and> assetType f = EXTENSION_ASSET_TYPES_VSIX"
  unfolding vsixFile_def by (rule find_present)

lemma vsixFile_exists:
  "\<exists>f \<in> set (files target). assetType f = EXTENSION_ASSET_TYPES_VSIX
   \<Longrightarrow> \<exists>f. vsixFile target = Some f"
  unfolding vsixFile_def by (rule find_exists)

lemma targetVersion_Nil: "targetVersion [] requested = None"
  by (simp add: targetVersion_def)

lemma targetVersion_default:
  "falsy requested \<Longrightarrow> targetVersion (v # vs) requested = Some v"
  by (simp add: targetVersion_def)

lemma targetVersion_explicit:
  "r \<noteq> [] \<Longrightarrow> targetVersion vs (Some r) = List.find (\<lambda>v. ExtensionVersion.version v = r) vs"
  by (simp add: targetVersion_def)

lemma targetVersion_no_match:
  "r \<noteq> [] \<Longrightarrow> \<forall>v \<in> set vs. ExtensionVersion.version v \<noteq> r
   \<Longrightarrow> targetVersion vs (Some r) = None"
  by (simp add: targetVersion_explicit find_absent)

lemma targetVersion_first_match:
  "r \<noteq> [] \<Longrightarrow> \<forall>v \<in> set pre. ExtensionVersion.version v \<noteq> r
   \<Longrightarrow> ExtensionVersion.version target = r
   \<Longrightarrow> targetVersion (pre @ target # post) (Some r) = Some target"
  by (simp add: targetVersion_explicit find_first)

lemma targetVersion_member: "targetVersion vs requested = Some target \<Longrightarrow> target \<in> set vs"
  unfolding targetVersion_def
  by (auto dest: find_present element_member split: if_splits)

lemma descriptor_sel:
  "downloadUrl (descriptor extension target f) = source f"
  "DownloadUrlInfo.version (descriptor extension target f) = ExtensionVersion.version target"
  "fileName (descriptor extension target f) =
     publisherName (publisher extension) @ ''.'' @ extensionName extension @ ''-''
       @ ExtensionVersion.version target @ ''.vsix''"
  by (simp_all add: descriptor_def)

lemma getExtensionDownloadUrl_issued:
  "snd (getExtensionDownloadUrl fetch ext_id requested) = snd (fetchExtensionInfo fetch ext_id)"
  unfolding getExtensionDownloadUrl_def
  by (simp split: prod.splits option.splits list.splits)

lemma getExtensionDownloadUrl_fetched:
  assumes "fetchExtensionInfo fetch ext_id = (fetched, issued)"
  shows "fst (getExtensionDownloadUrl fetch ext_id requested) =
     (case fetched of
        None \<Rightarrow> None
      | Some extension \<Rightarrow>
          (case versions extension of
             None \<Rightarrow> None
           | Some vs \<Rightarrow>
               (case targetVersion vs requested of
                  None \<Rightarrow> None
                | Some target \<Rightarrow>
                    (case vsixFile target of
                       None \<Rightarrow> None
                     | Some f \<Rightarrow> Some (descriptor extension target f)))))"
  using assms unfolding getExtensionDownloadUrl_def descriptor_def
  by (simp add: targetVersion_Nil split: option.split list.split)

lemma getExtensionDownloadUrl_absent:
  "fst (fetchExtensionInfo fetch ext_id) = None
   \<Longrightarrow> fst (getExtensionDownloadUrl fetch ext_id requested) = None"
  by (cases "fetchExtensionInfo fetch ext_id") (simp add: getExtensionDownloadUrl_fetched)

lemma getExtensionDownloadUrl_no_record:
  "fetchExtensionInfo fetch ext_id = (None, issued)
   \<Longrightarrow> fst (getExtensionDownloadUrl fetch ext_id requested) = None"
  by (simp add: getExtensionDownloadUrl_fetched)

lemma getExtensionDownloadUrl_no_versions:
  "fetchExtensionInfo fetch ext_id = (Some extension, issued)
   \<Longrightarrow> versions extension = None \<or> versions extension = Some []
   \<Longrightarrow> fst (getExtensionDownloadUrl fetch ext_id requested) = None"
  by (auto simp add: getExtensionDownloadUrl_fetched targetVersion_Nil)

lemma getExtensionDownloadUrl_no_target:
  "fetchExtensionInfo fetch ext_id = (Some extension, issued)
   \<Longrightarrow> versions extension = Some vs
   \<Longrightarrow> targetVersion vs requested = None
   \<Longrightarrow> fst (getExtensionDownloadUrl fetch ext_id requested) = None"
  by (simp add: getExtensionDownloadUrl_fetched)

lemma getExtensionDownloadUrl_target:
  "fetchExtensionInfo fetch ext_id = (Some extension, issued)
   \<Longrightarrow> versions extension = Some vs
   \<Longrightarrow> targetVersion vs requested = Some target
   \<Longrightarrow> fst (getExtensionDownloadUrl fetch ext_id requested) =
       map_option (descriptor extension target) (vsixFile target)"
  by (simp add: getExtensionDownloadUrl_fetched split: option.split)

subsection \<open>The examples, evaluated\<close>

lemma example_fetched:
  "fetchExtensionInfo example_fetch ''acme.tool'' = (Some example_extension, [example_request])"
  by (simp add: fetchExtensionInfo_def fetchExtensionInfo_try_def example_fetch_def
      example_request_def MARKETPLACE_API_BASE_def)

lemma example_extension_versions: "versions example_extension = Some example_versions"
  by (simp add: example_extension_def)

lemmas example_simps =
  getExtensionDownloadUrl_def example_fetched example_extension_versions example_versions_def
  example_version_def targetVersion_def vsixFile_def EXTENSION_ASSET_TYPES_VSIX_def

lemma failed_examples:
  "failed_query (offline_fetch r)" "failed_query (unavailable_fetch r)"
  "failed_query (shapeless_fetch r)" "failed_query (empty_fetch r)"
  "failed_download (offline_fetch r)" "failed_download (unavailable_fetch r)"
  by (simp_all add: offline_fetch_def unavailable_fetch_def shapeless_fetch_def empty_fetch_def)


section \<open>The claims\<close>

subsection \<open>Selecting the version\<close>

text \<open>
  Claim C1, as the specification states it, fails on the empty version string: the source
  tests the optional argument for truthiness (\<^verbatim>\<open>version ? \<dots> : \<dots>\<close>), so a requested
  version \<^verbatim>\<open>""\<close> is treated as no request. The record \<open>acme.tool\<close> has the versions
  2.0.0, 1.2.3, 1.0.0 and 0.9.0, none of which is the empty string, and the explicit request
  for \<^verbatim>\<open>""\<close> is answered with the descriptor of 2.0.0 instead of an absent result.
\<close>

theorem getExtensionDownloadUrl_empty_version_counterexample:
  "fst (fetchExtensionInfo example_fetch ''acme.tool'') = Some example_extension
   \<and> map_option (map ExtensionVersion.version) (versions example_extension)
       = Some [''2.0.0'', ''1.2.3'', ''1.0.0'', ''0.9.0'']
   \<and> fst (getExtensionDownloadUrl example_fetch ''acme.tool'' (Some [])) = Some
       \<lparr>downloadUrl = ''https://cdn.example/2.0.0/vsix'', version = ''2.0.0'',
        fileName = ''acme.tool-2.0.0.vsix''\<rparr>"
  by (simp add: example_simps example_extension_def)

text \<open>
  Claim C1, amended: with \<open>fetched\<close> the result of \<^verbatim>\<open>fetchExtensionInfo\<close>,
  \<^item> if the record is absent, or its versions are missing or empty, the result is absent;
  \<^item> if no version was requested, or the requested version is the empty string, the
    result is the one built from the first entry of the versions: absent if that entry has no
    package asset, and otherwise the descriptor of that entry, whose version is the entry's
    version string;
  \<^item> if a non-empty version was requested and no entry has that version string, the result
    is absent;
  \<^item> if a non-empty version was requested, the result is the one built from the first entry
    whose version string equals it: absent if that entry has no package asset, and otherwise
    the descriptor of that entry, whose version is the requested string.
\<close>

theorem getExtensionDownloadUrl_version_selection:
  assumes "fetchExtensionInfo fetch ext_id = (fetched, issued)"
  shows "(\<forall>extension target f.
            DownloadUrlInfo.version (descriptor extension target f)
              = ExtensionVersion.version target)
       \<and> (fetched = None \<or> (\<exists>extension. fetched = Some extension
              \<and> (versions extension = None \<or> versions extension = Some []))
            \<longrightarrow> fst (getExtensionDownloadUrl fetch ext_id requested) = None)
       \<and> (\<forall>extension v vs. fetched = Some extension \<and> versions extension = Some (v # vs)
              \<and> falsy requested
            \<longrightarrow> fst (getExtensionDownloadUrl fetch ext_id requested)
                  = map_option (descriptor extension v) (vsixFile v))
       \<and> (\<forall>extension vs r. fetched = Some extension \<and> versions extension = Some vs
              \<and> requested = Some r \<and> r \<noteq> []
              \<and> (\<forall>v \<in> set vs. ExtensionVersion.version v \<noteq> r)
            \<longrightarrow> fst (getExtensionDownloadUrl fetch ext_id requested) = None)
       \<and> (\<forall>extension pre target post r. fetched = Some extension
              \<and> versions extension = Some (pre @ target # post)
              \<and> requested = Some r \<and> r \<noteq> []
              \<and> (\<forall>v \<in> set pre. ExtensionVersion.version v \<noteq> r)
              \<and> ExtensionVersion.version target = r
            \<longrightarrow> fst (getExtensionDownloadUrl fetch ext_id requested)
                  = map_option (descriptor extension target) (vsixFile target))"
proof (intro conjI impI allI)
  fix extension target f
  show "DownloadUrlInfo.version (descriptor extension target f)
      = ExtensionVersion.version target"
    by (rule descriptor_sel(2))
next
  assume "fetched = None \<or> (\<exists>extension. fetched = Some extension
              \<and> (versions extension = None \<or> versions extension = Some []))"
  then show "fst (getExtensionDownloadUrl fetch ext_id requested) = None"
    using assms getExtensionDownloadUrl_no_record getExtensionDownloadUrl_no_versions
    by blast
next
  fix extension v vs
  assume a: "fetched = Some extension \<and> versions extension = Some (v # vs)
              \<and> falsy requested"
  then have fe: "fetchExtensionInfo fetch ext_id = (Some extension, issued)"
      and vs: "versions extension = Some (v # vs)"
      and t: "targetVersion (v # vs) requested = Some v"
    using assms by (simp_all add: targetVersion_default)
  show "fst (getExtensionDownloadUrl fetch ext_id requested)
      = map_option (descriptor extension v) (vsixFile v)"
    by (rule getExtensionDownloadUrl_target [OF fe vs t])
next
  fix extension vs r
  assume a: "fetched = Some extension \<and> versions extension = Some vs
              \<and> requested = Some r \<and> r \<noteq> []
              \<and> (\<forall>v \<in> set vs. ExtensionVersion.version v \<noteq> r)"
  then have "targetVersion vs requested = None"
    by (simp add: targetVersion_no_match)
  moreover from a assms have "fetchExtensionInfo fetch ext_id = (Some extension, issued)"
      and "versions extension = Some vs"
    by simp_all
  ultimately show "fst (getExtensionDownloadUrl fetch ext_id requested) = None"
    by (simp add: getExtensionDownloadUrl_no_target)
next
  fix extension pre target post r
  assume a: "fetched = Some extension
              \<and> versions extension = Some (pre @ target # post)
              \<and> requested = Some r \<and> r \<noteq> []
              \<and> (\<forall>v \<in> set pre. ExtensionVersion.version v \<noteq> r)
              \<and> ExtensionVersion.version target = r"
  then have fe: "fetchExtensionInfo fetch ext_id = (Some extension, issued)"
      and vs: "versions extension = Some (pre @ target # post)"
      and t: "targetVersion (pre @ target # post) requested = Some target"
    using assms by (auto simp: targetVersion_first_match)
  show "fst (getExtensionDownloadUrl fetch ext_id requested)
      = map_option (descriptor extension target) (vsixFile target)"
    by (rule getExtensionDownloadUrl_target [OF fe vs t])
qed

text \<open>
  The examples of the specification on the record \<open>acme.tool\<close>, whose versions are 2.0.0,
  1.2.3, 1.0.0 and 0.9.0: no request and the empty request give 2.0.0, the request for 1.0.0
  gives that version's asset, the request for 9.9.9 gives nothing; a transport that is offline
  gives nothing.
\<close>

theorem getExtensionDownloadUrl_version_selection_witness:
  "fetchExtensionInfo example_fetch ''acme.tool'' = (Some example_extension, [example_request])
   \<and> fetchExtensionInfo offline_fetch ''acme.tool'' = (None, [example_request])
   \<and> map_option (map ExtensionVersion.version) (versions example_extension)
       = Some ([''2.0.0'', ''1.2.3''] @ ''1.0.0'' # [''0.9.0''])
   \<and> fst (getExtensionDownloadUrl offline_fetch ''acme.tool'' None) = None
   \<and> fst (getExtensionDownloadUrl example_fetch ''acme.tool'' None) = Some
       \<lparr>downloadUrl = ''https://cdn.example/2.0.0/vsix'', version = ''2.0.0'',
        fileName = ''acme.tool-2.0.0.vsix''\<rparr>
   \<and> fst (getExtensionDownloadUrl example_fetch ''acme.tool'' (Some [])) = Some
       \<lparr>downloadUrl = ''https://cdn.example/2.0.0/vsix'', version = ''2.0.0'',
        fileName = ''acme.tool-2.0.0.vsix''\<rparr>
   \<and> fst (getExtensionDownloadUrl example_fetch ''acme.tool'' (Some ''1.0.0'')) = Some
       \<lparr>downloadUrl = ''https://cdn.example/1.0.0/vsix'', version = ''1.0.0'',
        fileName = ''acme.tool-1.0.0.vsix''\<rparr>
   \<and> fst (getExtensionDownloadUrl example_fetch ''acme.tool'' (Some ''9.9.9'')) = None"
proof -
  let ?v2 = "example_version ''2.0.0''
        [\<lparr>assetType = ''Microsoft.VisualStudio.Code.Manifest'',
          source = ''https://cdn.example/2.0.0/manifest''\<rparr>,
         \<lparr>assetType = ''Microsoft.VisualStudio.Services.VSIXPackage'',
          source = ''https://cdn.example/2.0.0/vsix''\<rparr>,
         \<lparr>assetType = ''Microsoft.VisualStudio.Services.VSIXPackage'',
          source = ''https://cdn.example/2.0.0/vsix-alt''\<rparr>]"
  let ?v12 = "example_version ''1.2.3''
        [\<lparr>assetType = ''Microsoft.VisualStudio.Services.VSIXPackage'',
          source = ''https://cdn.example/1.2.3/vsix''\<rparr>]"
  let ?v1 = "example_version ''1.0.0''
        [\<lparr>assetType = ''Microsoft.VisualStudio.Services.VSIXPackage'',
          source = ''https://cdn.example/1.0.0/vsix''\<rparr>]"
  let ?v0 = "example_version ''0.9.0''
        [\<lparr>assetType = ''Microsoft.VisualStudio.Code.Manifest'',
          source = ''https://cdn.example/0.9.0/manifest''\<rparr>]"
  have off: "fetchExtensionInfo offline_fetch ''acme.tool'' = (None, [example_request])"
    by (simp add: fetchExtensionInfo_def fetchExtensionInfo_try_def offline_fetch_def
        example_request_def MARKETPLACE_API_BASE_def)
  have vs: "versions example_extension = Some (?v2 # [?v12, ?v1, ?v0])"
    and vs': "versions example_extension = Some ([?v2, ?v12] @ ?v1 # [?v0])"
    by (simp_all add: example_extension_versions example_versions_def)
  have names: "map_option (map ExtensionVersion.version) (versions example_extension)
       = Some ([''2.0.0'', ''1.2.3''] @ ''1.0.0'' # [''0.9.0''])"
    by (simp add: vs example_version_def)
  have absent: "fst (getExtensionDownloadUrl offline_fetch ''acme.tool'' None) = None"
    using getExtensionDownloadUrl_version_selection [OF off, of None] by simp
  have none: "fst (getExtensionDownloadUrl example_fetch ''acme.tool'' None)
      = map_option (descriptor example_extension ?v2) (vsixFile ?v2)"
    using getExtensionDownloadUrl_version_selection [OF example_fetched, of None] vs
    by simp
  have empty: "fst (getExtensionDownloadUrl example_fetch ''acme.tool'' (Some []))
      = map_option (descriptor example_extension ?v2) (vsixFile ?v2)"
    using getExtensionDownloadUrl_version_selection [OF example_fetched, of "Some []"] vs
    by simp
  have missing: "fst (getExtensionDownloadUrl example_fetch ''acme.tool'' (Some ''9.9.9''))
      = None"
    using getExtensionDownloadUrl_version_selection [OF example_fetched, of "Some ''9.9.9''"]
    by (simp add: example_extension_versions example_versions_def example_version_def)
  have explicit: "fst (getExtensionDownloadUrl example_fetch ''acme.tool'' (Some ''1.0.0''))
      = map_option (descriptor example_extension ?v1) (vsixFile ?v1)"
    by (rule getExtensionDownloadUrl_version_selection
          [OF example_fetched, of "Some ''1.0.0''",
            THEN conjunct2, THEN conjunct2, THEN conjunct2, THEN conjunct2, rule_format,
            of example_extension "[?v2, ?v12]" ?v1 "[?v0]" "''1.0.0''"])
       (simp add: vs' example_version_def)
  show ?thesis
    unfolding none empty explicit missing absent
    using example_fetched off names
    by (simp add: vsixFile_def EXTENSION_ASSET_TYPES_VSIX_def descriptor_def
        example_version_def example_extension_def)
qed

subsection \<open>Rejecting malformed identifiers\<close>

text \<open>
  Claim C2, as the specification states it, fails on \<open>a..b\<close>: the split on the first
  \<open>.\<close> gives the non-empty halves \<open>a\<close> and \<open>.b\<close>, so the claim has the query issued; the
  source splits on every \<open>.\<close> and destructures the first two segments, the second of which is
  empty, so it returns absent without a request.
\<close>

theorem fetchExtensionInfo_first_dot_counterexample:
  "two_nonempty_halves ''a..b'' \<and> fetchExtensionInfo example_fetch ''a..b'' = (None, [])"
  by (simp add: two_nonempty_halves_def split_first_def fetchExtensionInfo_def
      fetchExtensionInfo_try_def)

text \<open>
  Claim C2, amended: \<^verbatim>\<open>fetchExtensionInfo\<close> returns absent without issuing a request exactly
  when the identifier has no \<open>.\<close>, or the text before its first \<open>.\<close> is empty, or the text
  between its first \<open>.\<close> and the next \<open>.\<close> (or the end of the string) is empty; for every
  other identifier exactly one request is issued.
\<close>

theorem fetchExtensionInfo_fail_fast:
  "(fetchExtensionInfo fetch ext_id = (None, []) \<longleftrightarrow>
      CHR ''.'' \<notin> set ext_id
      \<or> takeWhile (\<lambda>c. c \<noteq> CHR ''.'') ext_id = []
      \<or> takeWhile (\<lambda>c. c \<noteq> CHR ''.'') (tl (dropWhile (\<lambda>c. c \<noteq> CHR ''.'') ext_id)) = [])
   \<and> (fetchExtensionInfo fetch ext_id \<noteq> (None, []) \<longrightarrow>
        length (snd (fetchExtensionInfo fetch ext_id)) = 1)"
proof -
  let ?bad = "falsy (element (split CHR ''.'' ext_id) 0)
      \<or> falsy (element (split CHR ''.'' ext_id) 1)"
  have check: "?bad \<longleftrightarrow>
      CHR ''.'' \<notin> set ext_id
      \<or> takeWhile (\<lambda>c. c \<noteq> CHR ''.'') ext_id = []
      \<or> takeWhile (\<lambda>c. c \<noteq> CHR ''.'') (tl (dropWhile (\<lambda>c. c \<noteq> CHR ''.'') ext_id)) = []"
    by (simp add: element_split_0 element_split_1)
  have "fetchExtensionInfo fetch ext_id = (None, []) \<longleftrightarrow> ?bad"
  proof
    assume "fetchExtensionInfo fetch ext_id = (None, [])"
    then have "snd (fetchExtensionInfo fetch ext_id) = []" by simp
    then show ?bad by (simp add: fetchExtensionInfo_issued split: if_splits)
  next
    assume ?bad
    then show "fetchExtensionInfo fetch ext_id = (None, [])"
      by (rule fetchExtensionInfo_rejected)
  qed
  moreover have "length (snd (fetchExtensionInfo fetch ext_id)) = 1" if "\<not> ?bad"
    using that by (simp add: fetchExtensionInfo_issued)
  ultimately show ?thesis using check by blast
qed

theorem fetchExtensionInfo_fail_fast_witness:
  "fetchExtensionInfo example_fetch ''invalid-id'' = (None, [])
   \<and> fetchExtensionInfo example_fetch ''.name'' = (None, [])
   \<and> fetchExtensionInfo example_fetch ''publisher.'' = (None, [])
   \<and> fetchExtensionInfo example_fetch ''a..b'' = (None, [])
   \<and> fetchExtensionInfo example_fetch ''acme.tool'' \<noteq> (None, [])
   \<and> length (snd (fetchExtensionInfo example_fetch ''acme.tool'')) = 1"
  using fetchExtensionInfo_fail_fast [of example_fetch "''invalid-id''"]
    fetchExtensionInfo_fail_fast [of example_fetch "''.name''"]
    fetchExtensionInfo_fail_fast [of example_fetch "''publisher.''"]
    fetchExtensionInfo_fail_fast [of example_fetch "''a..b''"]
    fetchExtensionInfo_fail_fast [of example_fetch "''acme.tool''"]
  by simp


subsection \<open>Finding the package asset\<close>

text \<open>
  Claim C3: once a version has been selected, the result is absent if none of its files
  has the asset type \<^verbatim>\<open>Microsoft.VisualStudio.Services.VSIXPackage\<close>, even though the version
  was found; if one has, there is a descriptor, and its download URL is the source of such a
  file, unchanged.
\<close>

theorem getExtensionDownloadUrl_package_asset:
  assumes "fetchExtensionInfo fetch ext_id = (Some extension, issued)"
      and "versions extension = Some vs"
      and "targetVersion vs requested = Some target"
  shows "EXTENSION_ASSET_TYPES_VSIX = ''Microsoft.VisualStudio.Services.VSIXPackage''
       \<and> ((\<forall>f \<in> set (files target). assetType f \<noteq> EXTENSION_ASSET_TYPES_VSIX)
            \<longrightarrow> fst (getExtensionDownloadUrl fetch ext_id requested) = None)
       \<and> ((\<exists>f \<in> set (files target). assetType f = EXTENSION_ASSET_TYPES_VSIX)
            \<longrightarrow> (\<exists>d f. fst (getExtensionDownloadUrl fetch ext_id requested) = Some d
                  \<and> f \<in> set (files target)
                  \<and> assetType f = EXTENSION_ASSET_TYPES_VSIX
                  \<and> downloadUrl d = source f))"
proof (intro conjI impI)
  show "EXTENSION_ASSET_TYPES_VSIX = ''Microsoft.VisualStudio.Services.VSIXPackage''"
    by (rule EXTENSION_ASSET_TYPES_VSIX_def)
next
  assume "\<forall>f \<in> set (files target). assetType f \<noteq> EXTENSION_ASSET_TYPES_VSIX"
  then have "vsixFile target = None"
    by (rule vsixFile_absent)
  then show "fst (getExtensionDownloadUrl fetch ext_id requested) = None"
    using assms by (simp add: getExtensionDownloadUrl_target)
next
  assume "\<exists>f \<in> set (files target). assetType f = EXTENSION_ASSET_TYPES_VSIX"
  then obtain vf where f: "vsixFile target = Some vf"
    using vsixFile_exists by blast
  then have "vf \<in> set (files target) \<and> assetType vf = EXTENSION_ASSET_TYPES_VSIX"
    by (rule vsixFile_present)
  moreover have "fst (getExtensionDownloadUrl fetch ext_id requested)
      = Some (descriptor extension target vf)"
    using assms f by (simp add: getExtensionDownloadUrl_target)
  ultimately show "\<exists>d f. fst (getExtensionDownloadUrl fetch ext_id requested) = Some d
                  \<and> f \<in> set (files target)
                  \<and> assetType f = EXTENSION_ASSET_TYPES_VSIX
                  \<and> downloadUrl d = source f"
    using descriptor_sel(1) by blast
qed

text \<open>
  Version 0.9.0 of \<open>acme.tool\<close> is found but has only a manifest: the result is absent.
  Version 1.2.3 has a package: the download URL is its source.
\<close>

theorem getExtensionDownloadUrl_package_asset_witness:
  "fetchExtensionInfo example_fetch ''acme.tool'' = (Some example_extension, [example_request])
   \<and> versions example_extension = Some example_versions
   \<and> targetVersion example_versions (Some ''0.9.0'') = Some (example_version ''0.9.0''
        [\<lparr>assetType = ''Microsoft.VisualStudio.Code.Manifest'',
          source = ''https://cdn.example/0.9.0/manifest''\<rparr>])
   \<and> fst (getExtensionDownloadUrl example_fetch ''acme.tool'' (Some ''0.9.0'')) = None
   \<and> targetVersion example_versions (Some ''1.2.3'') = Some (example_version ''1.2.3''
        [\<lparr>assetType = ''Microsoft.VisualStudio.Services.VSIXPackage'',
          source = ''https://cdn.example/1.2.3/vsix''\<rparr>])
   \<and> map_option downloadUrl (fst (getExtensionDownloadUrl example_fetch ''acme.tool''
        (Some ''1.2.3''))) = Some ''https://cdn.example/1.2.3/vsix''"
proof -
  have t0: "targetVersion example_versions (Some ''0.9.0'') = Some (example_version ''0.9.0''
        [\<lparr>assetType = ''Microsoft.VisualStudio.Code.Manifest'',
          source = ''https://cdn.example/0.9.0/manifest''\<rparr>])"
    by (simp add: targetVersion_def example_versions_def example_version_def)
  have t1: "targetVersion example_versions (Some ''1.2.3'') = Some (example_version ''1.2.3''
        [\<lparr>assetType = ''Microsoft.VisualStudio.Services.VSIXPackage'',
          source = ''https://cdn.example/1.2.3/vsix''\<rparr>])"
    by (simp add: targetVersion_def example_versions_def example_version_def)
  have "fst (getExtensionDownloadUrl example_fetch ''acme.tool'' (Some ''0.9.0'')) = None"
    using getExtensionDownloadUrl_package_asset [OF example_fetched example_extension_versions t0]
    by (simp add: example_version_def EXTENSION_ASSET_TYPES_VSIX_def)
  moreover have "map_option downloadUrl (fst (getExtensionDownloadUrl example_fetch
        ''acme.tool'' (Some ''1.2.3''))) = Some ''https://cdn.example/1.2.3/vsix''"
    using getExtensionDownloadUrl_package_asset [OF example_fetched example_extension_versions t1]
    by (auto simp: example_version_def EXTENSION_ASSET_TYPES_VSIX_def)
  ultimately show ?thesis
    using t0 t1 example_fetched example_extension_versions by simp
qed

subsection \<open>Extracting the identifier from a URL\<close>

text \<open>
  Claim C4, as the specification states it, fails on a URL whose \<open>itemName\<close> parameter is
  present with the empty value: the claim has the extraction return that value, the empty
  string; the source tests the value for truthiness and returns \<^verbatim>\<open>null\<close>.
\<close>

theorem extractExtensionIdFromUrl_empty_value_counterexample:
  "example_URL ''https://marketplace.visualstudio.com/items?itemName='' =
     Inr \<lparr>hostname = ''marketplace.visualstudio.com'', pathname = ''/items'',
          searchParams = [(''itemName'', [])]\<rparr>
   \<and> extractExtensionIdFromUrl example_URL
        ''https://marketplace.visualstudio.com/items?itemName='' = None"
  by (simp add: extractExtensionIdFromUrl_def extractExtensionIdFromUrl_try_def example_URL_def)

text \<open>
  Claim C4, amended: the extraction returns absent when the string does not parse as a URL
  (the thrown failure is caught), or the host name is not \<open>marketplace.visualstudio.com\<close>
  (whatever the path and the query), or there is no \<open>itemName\<close> parameter, or the value of
  the first \<open>itemName\<close> parameter is empty; otherwise it returns exactly the value of the first
  \<open>itemName\<close> parameter, whether or not it has the form \<open>publisher.name\<close>.
\<close>

theorem extractExtensionIdFromUrl_cases:
  "(\<forall>e. new_URL u = Inl e \<longrightarrow> extractExtensionIdFromUrl new_URL u = None)
   \<and> (\<forall>urlObj. new_URL u = Inr urlObj \<longrightarrow>
        (hostname urlObj \<noteq> ''marketplace.visualstudio.com''
           \<longrightarrow> extractExtensionIdFromUrl new_URL u = None)
      \<and> (''itemName'' \<notin> fst ` set (searchParams urlObj)
           \<longrightarrow> extractExtensionIdFromUrl new_URL u = None)
      \<and> (\<forall>pre v post. hostname urlObj = ''marketplace.visualstudio.com''
             \<and> searchParams urlObj = pre @ (''itemName'', v) # post
             \<and> ''itemName'' \<notin> fst ` set pre
           \<longrightarrow> extractExtensionIdFromUrl new_URL u = (if v = [] then None else Some v)))"
  by (cases "new_URL u")
     (auto simp: extractExtensionIdFromUrl_def extractExtensionIdFromUrl_try_def Let_def
        searchParams_get_first searchParams_get_missing
        split: option.splits)

theorem extractExtensionIdFromUrl_cases_witness:
  "extractExtensionIdFromUrl example_URL ''not a url'' = None
   \<and> extractExtensionIdFromUrl example_URL
        ''https://www.google.com/items?itemName=publisher.extensionName'' = None
   \<and> extractExtensionIdFromUrl example_URL ''https://marketplace.visualstudio.com/items'' = None
   \<and> extractExtensionIdFromUrl example_URL
        ''https://marketplace.visualstudio.com/items?itemName='' = None
   \<and> extractExtensionIdFromUrl example_URL
        ''https://marketplace.visualstudio.com/items?itemName=publisher.extensionName''
       = Some ''publisher.extensionName''
   \<and> extractExtensionIdFromUrl example_URL
        ''https://marketplace.visualstudio.com/items?itemName=nodot'' = Some ''nodot''"
  using extractExtensionIdFromUrl_cases [of example_URL "''not a url''"]
    extractExtensionIdFromUrl_cases [of example_URL
      "''https://www.google.com/items?itemName=publisher.extensionName''"]
    extractExtensionIdFromUrl_cases [of example_URL
      "''https://marketplace.visualstudio.com/items''"]
    extractExtensionIdFromUrl_cases [of example_URL
      "''https://marketplace.visualstudio.com/items?itemName=''"]
    extractExtensionIdFromUrl_cases [of example_URL
      "''https://marketplace.visualstudio.com/items?itemName=publisher.extensionName''"]
    extractExtensionIdFromUrl_cases [of example_URL
      "''https://marketplace.visualstudio.com/items?itemName=nodot''"]
  by (simp add: example_URL_def extractExtensionIdFromUrl_def extractExtensionIdFromUrl_try_def)

subsection \<open>Classifying a page\<close>

text \<open>
  Claim C5: \<^verbatim>\<open>isMarketplaceExtensionPage\<close> is true if and only if the string parses as a
  URL, its host name is \<open>marketplace.visualstudio.com\<close> and its path is exactly \<open>/items\<close>. A
  string that does not parse gives false: the thrown failure is caught.
\<close>

theorem isMarketplaceExtensionPage_iff:
  "isMarketplaceExtensionPage new_URL u \<longleftrightarrow>
     (\<exists>urlObj. new_URL u = Inr urlObj
        \<and> hostname urlObj = ''marketplace.visualstudio.com''
        \<and> pathname urlObj = ''/items'')"
  by (cases "new_URL u") (simp_all add: isMarketplaceExtensionPage_def)

theorem isMarketplaceExtensionPage_iff_witness:
  "isMarketplaceExtensionPage example_URL
     ''https://marketplace.visualstudio.com/items?itemName=publisher.extensionName''
   \<and> \<not> isMarketplaceExtensionPage example_URL ''https://marketplace.visualstudio.com/''
   \<and> \<not> isMarketplaceExtensionPage example_URL
         ''https://www.google.com/items?itemName=publisher.extensionName''
   \<and> \<not> isMarketplaceExtensionPage example_URL ''not a url''"
  using isMarketplaceExtensionPage_iff [of example_URL
      "''https://marketplace.visualstudio.com/items?itemName=publisher.extensionName''"]
    isMarketplaceExtensionPage_iff [of example_URL "''https://marketplace.visualstudio.com/''"]
    isMarketplaceExtensionPage_iff [of example_URL
      "''https://www.google.com/items?itemName=publisher.extensionName''"]
    isMarketplaceExtensionPage_iff [of example_URL "''not a url''"]
  by (simp add: example_URL_def)


subsection \<open>Synthesizing the file name\<close>

text \<open>
  Claim C6: the file name of every descriptor is the publisher's \<open>publisherName\<close>, a \<open>.\<close>,
  the extension's \<open>extensionName\<close>, a \<open>-\<close>, the version string of the selected version
  (which is the descriptor's version) and the suffix \<open>.vsix\<close>.
\<close>

theorem getExtensionDownloadUrl_fileName:
  assumes "fst (getExtensionDownloadUrl fetch ext_id requested) = Some d"
  shows "\<exists>extension vs target. fst (fetchExtensionInfo fetch ext_id) = Some extension
           \<and> versions extension = Some vs \<and> target \<in> set vs
           \<and> DownloadUrlInfo.version d = ExtensionVersion.version target
           \<and> fileName d = publisherName (publisher extension) @ ''.''
               @ extensionName extension @ ''-'' @ ExtensionVersion.version target @ ''.vsix''"
proof -
  obtain fetched issued where f: "fetchExtensionInfo fetch ext_id = (fetched, issued)"
    by (cases "fetchExtensionInfo fetch ext_id")
  from assms obtain extension vs target vf
    where "fetched = Some extension" and "versions extension = Some vs"
      and t: "targetVersion vs requested = Some target"
      and "d = descriptor extension target vf"
    unfolding getExtensionDownloadUrl_fetched [OF f]
    by (auto split: option.splits)
  moreover from t have "target \<in> set vs"
    by (rule targetVersion_member)
  ultimately show ?thesis
    using f by (auto simp: descriptor_sel)
qed

text \<open>
  For the publisher \<open>acme\<close>, the extension \<open>tool\<close> and the version \<open>1.2.3\<close> the file name
  is \<open>acme.tool-1.2.3.vsix\<close>.
\<close>

theorem getExtensionDownloadUrl_fileName_witness:
  "fst (getExtensionDownloadUrl example_fetch ''acme.tool'' (Some ''1.2.3'')) = Some
       \<lparr>downloadUrl = ''https://cdn.example/1.2.3/vsix'', version = ''1.2.3'',
        fileName = ''acme.tool-1.2.3.vsix''\<rparr>
   \<and> fst (fetchExtensionInfo example_fetch ''acme.tool'') = Some example_extension
   \<and> publisherName (publisher example_extension) = ''acme''
   \<and> extensionName example_extension = ''tool''"
proof -
  have e: "fst (getExtensionDownloadUrl example_fetch ''acme.tool'' (Some ''1.2.3'')) = Some
       \<lparr>downloadUrl = ''https://cdn.example/1.2.3/vsix'', version = ''1.2.3'',
        fileName = ''acme.tool-1.2.3.vsix''\<rparr>"
    by (simp add: example_simps example_extension_def)
  show ?thesis
    using getExtensionDownloadUrl_fileName [OF e] e
    by (simp add: example_fetched example_extension_def)
qed

subsection \<open>Failures stay inside the operations\<close>

text \<open>
  Claim C7: when the transport's outcome on the request an operation issues is a failure,
  the operation returns an absent result. For \<^verbatim>\<open>fetchExtensionInfo\<close> and
  \<^verbatim>\<open>getExtensionDownloadUrl\<close> the failures are a thrown network error, a non-success status,
  a response body without the \<^verbatim>\<open>results[0].extensions\<close> nesting and an empty
  \<^verbatim>\<open>extensions\<close> array; for \<^verbatim>\<open>downloadExtensionFile\<close>, which reads no JSON, they are a
  thrown network error, a non-success status and an unreadable body. Every fault thrown inside
  a \<^verbatim>\<open>try\<close> body ends as an absent result of the operation; the operations themselves
  return values and have no faulting outcome.
\<close>

theorem failures_become_absent:
  "((\<forall>request \<in> set (snd (fetchExtensionInfo fetch ext_id)). failed_query (fetch request))
      \<longrightarrow> fst (fetchExtensionInfo fetch ext_id) = None
        \<and> fst (getExtensionDownloadUrl fetch ext_id requested) = None)
   \<and> ((\<forall>request \<in> set (snd (downloadExtensionFile fetch download_url filename)).
          failed_download (fetch request))
      \<longrightarrow> fst (downloadExtensionFile fetch download_url filename) = None)
   \<and> (\<forall>e. fst (fetchExtensionInfo_try fetch ext_id) = Inl e
          \<longrightarrow> fst (fetchExtensionInfo fetch ext_id) = None
            \<and> fst (getExtensionDownloadUrl fetch ext_id requested) = None)
   \<and> (\<forall>e. fst (downloadExtensionFile_try fetch download_url filename) = Inl e
          \<longrightarrow> fst (downloadExtensionFile fetch download_url filename) = None)"
proof (intro conjI impI allI)
  assume "\<forall>request \<in> set (snd (fetchExtensionInfo fetch ext_id)). failed_query (fetch request)"
  then show absent: "fst (fetchExtensionInfo fetch ext_id) = None"
    by (simp only: fetchExtensionInfo_absent_iff)
  then show "fst (getExtensionDownloadUrl fetch ext_id requested) = None"
    by (rule getExtensionDownloadUrl_absent)
next
  assume "\<forall>request \<in> set (snd (downloadExtensionFile fetch download_url filename)).
            failed_download (fetch request)"
  then show "fst (downloadExtensionFile fetch download_url filename) = None"
    by (simp only: downloadExtensionFile_absent_iff)
next
  fix e assume "fst (fetchExtensionInfo_try fetch ext_id) = Inl e"
  then show absent: "fst (fetchExtensionInfo fetch ext_id) = None"
    by (rule fetchExtensionInfo_catch)
  then show "fst (getExtensionDownloadUrl fetch ext_id requested) = None"
    by (rule getExtensionDownloadUrl_absent)
next
  fix e assume "fst (downloadExtensionFile_try fetch download_url filename) = Inl e"
  then show "fst (downloadExtensionFile fetch download_url filename) = None"
    by (rule downloadExtensionFile_catch)
qed

text \<open>
  The four failing transports: offline, a non-success status, a body without the nesting,
  an empty \<^verbatim>\<open>extensions\<close> array. On the offline transport the fault is thrown inside the
  \<^verbatim>\<open>try\<close> bodies.
\<close>

theorem failures_become_absent_witness:
  "fst (fetchExtensionInfo_try offline_fetch ''acme.tool'') = Inl NetworkError
   \<and> fst (downloadExtensionFile_try offline_fetch ''https://cdn.example/1.2.3/vsix''
        ''acme.tool-1.2.3.vsix'') = Inl NetworkError
   \<and> fst (fetchExtensionInfo offline_fetch ''acme.tool'') = None
   \<and> fst (getExtensionDownloadUrl offline_fetch ''acme.tool'' None) = None
   \<and> fst (downloadExtensionFile offline_fetch ''https://cdn.example/1.2.3/vsix''
        ''acme.tool-1.2.3.vsix'') = None
   \<and> fst (fetchExtensionInfo unavailable_fetch ''acme.tool'') = None
   \<and> fst (getExtensionDownloadUrl unavailable_fetch ''acme.tool'' None) = None
   \<and> fst (downloadExtensionFile unavailable_fetch ''https://cdn.example/1.2.3/vsix''
        ''acme.tool-1.2.3.vsix'') = None
   \<and> fst (fetchExtensionInfo shapeless_fetch ''acme.tool'') = None
   \<and> fst (getExtensionDownloadUrl shapeless_fetch ''acme.tool'' None) = None
   \<and> fst (fetchExtensionInfo empty_fetch ''acme.tool'') = None
   \<and> fst (getExtensionDownloadUrl empty_fetch ''acme.tool'' None) = None"
proof -
  have "fst (fetchExtensionInfo_try offline_fetch ''acme.tool'') = Inl NetworkError"
    by (simp add: fetchExtensionInfo_try_def offline_fetch_def)
  moreover have "fst (downloadExtensionFile_try offline_fetch ''https://cdn.example/1.2.3/vsix''
        ''acme.tool-1.2.3.vsix'') = Inl NetworkError"
    by (simp add: downloadExtensionFile_try_def offline_fetch_def)
  ultimately show ?thesis
    using failures_become_absent [of offline_fetch "''acme.tool''" None
        "''https://cdn.example/1.2.3/vsix''" "''acme.tool-1.2.3.vsix''"]
      failures_become_absent [of unavailable_fetch "''acme.tool''" None
        "''https://cdn.example/1.2.3/vsix''" "''acme.tool-1.2.3.vsix''"]
      failures_become_absent [of shapeless_fetch "''acme.tool''" None
        "''https://cdn.example/1.2.3/vsix''" "''acme.tool-1.2.3.vsix''"]
      failures_become_absent [of empty_fetch "''acme.tool''" None
        "''https://cdn.example/1.2.3/vsix''" "''acme.tool-1.2.3.vsix''"]
    by (simp add: failed_examples)
qed

subsection \<open>The query\<close>

text \<open>
  Claim C8: for every identifier that passes the check of \<^verbatim>\<open>fetchExtensionInfo\<close>, whatever
  the transport answers, exactly one request is issued: a POST to the gallery query endpoint
  whose JSON body has one filter group with one criterion (filter type 7, the identifier
  itself as value), page number 1, page size 1, sort fields 0, an empty array of asset types
  and the flags 914.
\<close>

theorem fetchExtensionInfo_request:
  assumes "\<not> falsy (element (split CHR ''.'' ext_id) 0)"
      and "\<not> falsy (element (split CHR ''.'' ext_id) 1)"
  shows "snd (fetchExtensionInfo fetch ext_id) =
     [\<lparr>url =
         ''https://marketplace.visualstudio.com/_apis/public/gallery/extensionquery'', method = POST,
       headers = [(''Content-Type'', ''application/json''),
                  (''Accept'', ''application/json;api-version=6.0-preview.1'')],
       body = Some (JObject
         [(''filters'', JArray [JObject
             [(''criteria'', JArray [JObject
                 [(''filterType'', JNumber 7), (''value'', JString ext_id)]]),
              (''pageNumber'', JNumber 1),
              (''pageSize'', JNumber 1),
              (''sortBy'', JNumber 0),
              (''sortOrder'', JNumber 0)]]),
          (''assetTypes'', JArray []),
          (''flags'', JNumber 914)])\<rparr>]"
  using assms by (simp add: fetchExtensionInfo_issued MARKETPLACE_API_BASE_def)

theorem fetchExtensionInfo_request_witness:
  "\<not> falsy (element (split CHR ''.'' ''acme.tool'') 0)
   \<and> \<not> falsy (element (split CHR ''.'' ''acme.tool'') 1)
   \<and> snd (fetchExtensionInfo example_fetch ''acme.tool'') = [example_request]
   \<and> snd (fetchExtensionInfo offline_fetch ''acme.tool'') = [example_request]"
proof -
  have p: "\<not> falsy (element (split CHR ''.'' ''acme.tool'') 0)"
    and n: "\<not> falsy (element (split CHR ''.'' ''acme.tool'') 1)"
    by simp_all
  show ?thesis
    using p n fetchExtensionInfo_request [OF p n, of example_fetch]
      fetchExtensionInfo_request [OF p n, of offline_fetch]
    by (simp add: example_request_def)
qed

subsection \<open>An empty \<open>itemName\<close>\<close>

text \<open>
  Claim C9: on a URL of the host \<open>marketplace.visualstudio.com\<close> whose \<open>itemName\<close>
  parameter has the empty value, the extraction returns absent, as it does when the parameter
  is missing; the empty string is never returned as an identifier.
\<close>

theorem extractExtensionIdFromUrl_empty_itemName:
  "(new_URL u = Inr urlObj \<and> hostname urlObj = ''marketplace.visualstudio.com''
      \<and> searchParams urlObj = pre @ (''itemName'', []) # post
      \<and> ''itemName'' \<notin> fst ` set pre
      \<longrightarrow> extractExtensionIdFromUrl new_URL u = None)
   \<and> extractExtensionIdFromUrl new_URL u \<noteq> Some []"
  by (cases "new_URL u")
     (auto simp: extractExtensionIdFromUrl_def extractExtensionIdFromUrl_try_def Let_def
        searchParams_get_first
        split: option.splits)

theorem extractExtensionIdFromUrl_empty_itemName_witness:
  "example_URL ''https://marketplace.visualstudio.com/items?itemName='' =
     Inr \<lparr>hostname = ''marketplace.visualstudio.com'', pathname = ''/items'',
          searchParams = [] @ (''itemName'', []) # []\<rparr>
   \<and> extractExtensionIdFromUrl example_URL
        ''https://marketplace.visualstudio.com/items?itemName='' = None
   \<and> extractExtensionIdFromUrl example_URL ''https://marketplace.visualstudio.com/items''
       = None"
proof -
  have p: "example_URL ''https://marketplace.visualstudio.com/items?itemName='' =
     Inr \<lparr>hostname = ''marketplace.visualstudio.com'', pathname = ''/items'',
          searchParams = [] @ (''itemName'', []) # []\<rparr>"
    by (simp add: example_URL_def)
  have "extractExtensionIdFromUrl example_URL
        ''https://marketplace.visualstudio.com/items?itemName='' = None"
    using p extractExtensionIdFromUrl_empty_itemName [of example_URL
        "''https://marketplace.visualstudio.com/items?itemName=''"
        "\<lparr>hostname = ''marketplace.visualstudio.com'', pathname = ''/items'',
          searchParams = [] @ (''itemName'', []) # []\<rparr>" "[]" "[]"]
    by simp
  moreover have "extractExtensionIdFromUrl example_URL
      ''https://marketplace.visualstudio.com/items'' = None"
    by (simp add: extractExtensionIdFromUrl_def extractExtensionIdFromUrl_try_def
        example_URL_def)
  ultimately show ?thesis
    using p by simp
qed

subsection \<open>Several package assets\<close>

text \<open>
  Claim C10: when the selected version has several files of the package asset type, the
  one at the lowest index is used: whatever follows it in the file list, the download URL is
  the source of the first such file, and the descriptor is built from it, the record and the
  selected version alone.
\<close>

theorem getExtensionDownloadUrl_first_vsix:
  assumes "fetchExtensionInfo fetch ext_id = (Some extension, issued)"
      and "versions extension = Some vs"
      and "targetVersion vs requested = Some target"
      and "files target = pre @ f # post"
      and "\<forall>g \<in> set pre. assetType g \<noteq> EXTENSION_ASSET_TYPES_VSIX"
      and "assetType f = EXTENSION_ASSET_TYPES_VSIX"
  shows "getExtensionDownloadUrl fetch ext_id requested =
           (Some \<lparr>downloadUrl = source f,
                   version = ExtensionVersion.version target,
                   fileName = publisherName (publisher extension) @ ''.''
                     @ extensionName extension @ ''-''
                     @ ExtensionVersion.version target @ ''.vsix''\<rparr>, issued)"
proof -
  have "vsixFile target = Some f"
    using assms(4,5,6) by (rule vsixFile_first)
  then have "fst (getExtensionDownloadUrl fetch ext_id requested)
      = Some (descriptor extension target f)"
    using assms(1,2,3) by (simp add: getExtensionDownloadUrl_target)
  moreover have "snd (getExtensionDownloadUrl fetch ext_id requested) = issued"
    using assms(1) by (simp add: getExtensionDownloadUrl_issued)
  ultimately show ?thesis
    unfolding descriptor_def by (simp add: prod_eq_iff)
qed

text \<open>
  Version 2.0.0 of \<open>acme.tool\<close> has a manifest, then two packages: the first package is
  the one downloaded.
\<close>

theorem getExtensionDownloadUrl_first_vsix_witness:
  "targetVersion example_versions None = Some (example_version ''2.0.0''
      ([\<lparr>assetType = ''Microsoft.VisualStudio.Code.Manifest'',
         source = ''https://cdn.example/2.0.0/manifest''\<rparr>]
       @ \<lparr>assetType = ''Microsoft.VisualStudio.Services.VSIXPackage'',
          source = ''https://cdn.example/2.0.0/vsix''\<rparr>
       # [\<lparr>assetType = ''Microsoft.VisualStudio.Services.VSIXPackage'',
           source = ''https://cdn.example/2.0.0/vsix-alt''\<rparr>]))
   \<and> getExtensionDownloadUrl example_fetch ''acme.tool'' None =
       (Some \<lparr>downloadUrl = ''https://cdn.example/2.0.0/vsix'', version = ''2.0.0'',
               fileName = ''acme.tool-2.0.0.vsix''\<rparr>, [example_request])"
proof -
  let ?pre = "[\<lparr>assetType = ''Microsoft.VisualStudio.Code.Manifest'',
         source = ''https://cdn.example/2.0.0/manifest''\<rparr>]"
  let ?f = "\<lparr>assetType = ''Microsoft.VisualStudio.Services.VSIXPackage'',
          source = ''https://cdn.example/2.0.0/vsix''\<rparr>"
  let ?post = "[\<lparr>assetType = ''Microsoft.VisualStudio.Services.VSIXPackage'',
           source = ''https://cdn.example/2.0.0/vsix-alt''\<rparr>]"
  let ?target = "example_version ''2.0.0'' (?pre @ ?f # ?post)"
  have t: "targetVersion example_versions None = Some ?target"
    by (simp add: targetVersion_def example_versions_def)
  have fs: "files ?target = ?pre @ ?f # ?post"
    by (simp add: example_version_def)
  have pre: "\<forall>g \<in> set ?pre. assetType g \<noteq> EXTENSION_ASSET_TYPES_VSIX"
    by (simp add: EXTENSION_ASSET_TYPES_VSIX_def)
  have f: "assetType ?f = EXTENSION_ASSET_TYPES_VSIX"
    by (simp add: EXTENSION_ASSET_TYPES_VSIX_def)
  show ?thesis
    using t getExtensionDownloadUrl_first_vsix
      [OF example_fetched example_extension_versions t fs pre f]
    by (simp add: example_version_def example_extension_def)
qed

end
